theory Spec2Isabelle
  imports Complex_Main
begin

section \<open>JavaScript numbers\<close>

text \<open>
  The engine of \<^verbatim>\<open>utils/financials.ts\<close> computes on JavaScript numbers. A number is
  modelled as a real or one of the three special values; arithmetic is exact on the
  reals (IEEE-754 rounding, overflow to infinity and the sign of zero are not
  modelled), and the special values follow the language's rules: a division by zero
  gives an infinity or \<open>NaN\<close>, every comparison with \<open>NaN\<close> is false.
\<close>

datatype number = Num real | NaN | PInf | NInf

instantiation number :: "{plus, uminus, minus, times, inverse}"
begin

fun plus_number :: "number \<Rightarrow> number \<Rightarrow> number" where
  "plus_number (Num a) (Num b) = Num (a + b)"
| "plus_number NaN _ = NaN"
| "plus_number _ NaN = NaN"
| "plus_number PInf NInf = NaN"
| "plus_number NInf PInf = NaN"
| "plus_number PInf _ = PInf"
| "plus_number _ PInf = PInf"
| "plus_number NInf _ = NInf"
| "plus_number _ NInf = NInf"

fun uminus_number :: "number \<Rightarrow> number" where
  "uminus_number (Num a) = Num (- a)"
| "uminus_number NaN = NaN"
| "uminus_number PInf = NInf"
| "uminus_number NInf = PInf"

definition minus_number :: "number \<Rightarrow> number \<Rightarrow> number" where
  "minus_number a b = a + (- b)"

fun times_number :: "number \<Rightarrow> number \<Rightarrow> number" where
  "times_number (Num a) (Num b) = Num (a * b)"
| "times_number NaN _ = NaN"
| "times_number _ NaN = NaN"
| "times_number (Num a) PInf = (if a = 0 then NaN else if 0 < a then PInf else NInf)"
| "times_number (Num a) NInf = (if a = 0 then NaN else if 0 < a then NInf else PInf)"
| "times_number PInf (Num b) = (if b = 0 then NaN else if 0 < b then PInf else NInf)"
| "times_number NInf (Num b) = (if b = 0 then NaN else if 0 < b then NInf else PInf)"
| "times_number PInf PInf = PInf"
| "times_number PInf NInf = NInf"
| "times_number NInf PInf = NInf"
| "times_number NInf NInf = PInf"

fun divide_number :: "number \<Rightarrow> number \<Rightarrow> number" where
  "divide_number (Num a) (Num b) =
     (if b \<noteq> 0 then Num (a / b)
      else if a = 0 then NaN else if 0 < a then PInf else NInf)"
| "divide_number NaN _ = NaN"
| "divide_number _ NaN = NaN"
| "divide_number (Num a) PInf = Num 0"
| "divide_number (Num a) NInf = Num 0"
| "divide_number PInf (Num b) = (if 0 \<le> b then PInf else NInf)"
| "divide_number NInf (Num b) = (if 0 \<le> b then NInf else PInf)"
| "divide_number PInf PInf = NaN"
| "divide_number PInf NInf = NaN"
| "divide_number NInf PInf = NaN"
| "divide_number NInf NInf = NaN"

definition inverse_number :: "number \<Rightarrow> number" where
  "inverse_number a = divide (Num 1) a"

instance ..

end

text \<open>The relational operators \<^verbatim>\<open><\<close> and \<^verbatim>\<open><=\<close>; \<^verbatim>\<open>a > b\<close> is \<open>num_lt b a\<close>.\<close>

fun num_lt :: "number \<Rightarrow> number \<Rightarrow> bool" where
  "num_lt (Num a) (Num b) = (a < b)"
| "num_lt NaN _ = False"
| "num_lt _ NaN = False"
| "num_lt NInf NInf = False"
| "num_lt NInf _ = True"
| "num_lt PInf _ = False"
| "num_lt (Num a) PInf = True"
| "num_lt (Num a) NInf = False"

fun num_le :: "number \<Rightarrow> number \<Rightarrow> bool" where
  "num_le (Num a) (Num b) = (a \<le> b)"
| "num_le NaN _ = False"
| "num_le _ NaN = False"
| "num_le NInf _ = True"
| "num_le PInf PInf = True"
| "num_le PInf _ = False"
| "num_le (Num a) PInf = True"
| "num_le (Num a) NInf = False"

definition num_gt :: "number \<Rightarrow> number \<Rightarrow> bool" where
  "num_gt a b = num_lt b a"

definition num_ge :: "number \<Rightarrow> number \<Rightarrow> bool" where
  "num_ge a b = num_le b a"

text \<open>Strict equality \<^verbatim>\<open>===\<close> on numbers: \<open>NaN\<close> differs from itself.\<close>

definition strict_eq :: "number \<Rightarrow> number \<Rightarrow> bool" where
  "strict_eq a b = (a \<noteq> NaN \<and> a = b)"

fun isNaN :: "number \<Rightarrow> bool" where
  "isNaN NaN = True"
| "isNaN _ = False"

fun isFinite :: "number \<Rightarrow> bool" where
  "isFinite (Num a) = True"
| "isFinite _ = False"

text \<open>A number in a condition (\<^verbatim>\<open>if (nav)\<close>) counts as true unless it is 0 or \<open>NaN\<close>.\<close>

fun truthy :: "number \<Rightarrow> bool" where
  "truthy (Num a) = (a \<noteq> 0)"
| "truthy NaN = False"
| "truthy _ = True"

fun Math_abs :: "number \<Rightarrow> number" where
  "Math_abs (Num a) = Num \<bar>a\<bar>"
| "Math_abs NaN = NaN"
| "Math_abs _ = PInf"

definition Math_max :: "number \<Rightarrow> number \<Rightarrow> number" where
  "Math_max a b = (if isNaN a \<or> isNaN b then NaN else if num_lt a b then b else a)"

definition Math_min :: "number \<Rightarrow> number \<Rightarrow> number" where
  "Math_min a b = (if isNaN a \<or> isNaN b then NaN else if num_lt b a then b else a)"

text \<open>\<^verbatim>\<open>Math.round\<close> rounds to the nearest integer, a half upwards.\<close>

fun Math_round :: "number \<Rightarrow> number" where
  "Math_round (Num a) = Num (of_int \<lfloor>a + 1 / 2\<rfloor>)"
| "Math_round x = x"

fun Math_sqrt :: "number \<Rightarrow> number" where
  "Math_sqrt (Num a) = (if a < 0 then NaN else Num (sqrt a))"
| "Math_sqrt PInf = PInf"
| "Math_sqrt _ = NaN"

definition is_odd_integer :: "real \<Rightarrow> bool" where
  "is_odd_integer e = (e = of_int \<lfloor>e\<rfloor> \<and> odd \<lfloor>e\<rfloor>)"

text \<open>\<^verbatim>\<open>Math.pow\<close>, case by case as the language defines it.\<close>

fun Math_pow :: "number \<Rightarrow> number \<Rightarrow> number" where
  "Math_pow b NaN = NaN"
| "Math_pow b (Num e) =
     (if e = 0 then Num 1
      else case b of
        NaN \<Rightarrow> NaN
      | PInf \<Rightarrow> (if 0 < e then PInf else Num 0)
      | NInf \<Rightarrow> (if 0 < e then (if is_odd_integer e then NInf else PInf) else Num 0)
      | Num x \<Rightarrow>
          (if x = 0 then (if 0 < e then Num 0 else PInf)
           else if 0 < x then Num (x powr e)
           else if e = of_int \<lfloor>e\<rfloor>
             then (if 0 \<le> \<lfloor>e\<rfloor> then Num (x ^ nat \<lfloor>e\<rfloor>) else Num (1 / x ^ nat (- \<lfloor>e\<rfloor>)))
           else NaN))"
| "Math_pow b PInf =
     (case b of
        NaN \<Rightarrow> NaN
      | Num x \<Rightarrow> (if 1 < \<bar>x\<bar> then PInf else if \<bar>x\<bar> = 1 then NaN else Num 0)
      | _ \<Rightarrow> PInf)"
| "Math_pow b NInf =
     (case b of
        NaN \<Rightarrow> NaN
      | Num x \<Rightarrow> (if 1 < \<bar>x\<bar> then Num 0 else if \<bar>x\<bar> = 1 then NaN else PInf)
      | _ \<Rightarrow> Num 0)"

text \<open>Conversion of a finite number to an integer truncates towards zero.\<close>

definition trunc :: "real \<Rightarrow> int" where
  "trunc x = (if 0 \<le> x then \<lfloor>x\<rfloor> else \<lceil>x\<rceil>)"

section \<open>Strings to numbers\<close>

definition is_digit :: "char \<Rightarrow> bool" where
  "is_digit c = (c \<in> set ''0123456789'')"

definition digit_val :: "char \<Rightarrow> nat" where
  "digit_val c = of_char c - 48"

definition nat_of_digits :: "string \<Rightarrow> nat" where
  "nat_of_digits s = foldl (\<lambda>n c. 10 * n + digit_val c) 0 s"

text \<open>
  \<^verbatim>\<open>Number(s)\<close> on a piece of a date string. The model reads the empty string as 0 and
  an unsigned decimal integer as its value, which is what the pieces of a
  \<^verbatim>\<open>dd-mm-yyyy\<close> or \<^verbatim>\<open>yyyy-mm-dd\<close> date are; any other piece is read as \<open>NaN\<close>.
\<close>

definition Number :: "string \<Rightarrow> number" where
  "Number s = (if list_all is_digit s then Num (real (nat_of_digits s)) else NaN)"

text \<open>
  \<^verbatim>\<open>parseFloat(s)\<close> reads the longest prefix of the form sign, digits, optional
  fraction, and gives \<open>NaN\<close> when there is no digit. Leading blanks, exponents and the
  word \<^verbatim>\<open>Infinity\<close> are not modelled.
\<close>

definition parse_unsigned :: "string \<Rightarrow> number" where
  "parse_unsigned s =
     (let ip = takeWhile is_digit s;
          r = dropWhile is_digit s;
          fp = (case r of [] \<Rightarrow> [] | c # r' \<Rightarrow> if c = CHR ''.'' then takeWhile is_digit r' else [])
      in if ip = [] \<and> fp = [] then NaN
         else Num (real (nat_of_digits ip) + real (nat_of_digits fp) / 10 ^ length fp))"

definition parseFloat :: "string \<Rightarrow> number" where
  "parseFloat s =
     (case s of
        [] \<Rightarrow> NaN
      | c # r \<Rightarrow>
          if c = CHR ''-'' then - parse_unsigned r
          else if c = CHR ''+'' then parse_unsigned r
          else parse_unsigned s)"

text \<open>\<^verbatim>\<open>s.split('-')\<close>.\<close>

fun split_dash :: "string \<Rightarrow> string list" where
  "split_dash [] = [[]]"
| "split_dash (c # cs) =
     (if c = CHR ''-'' then [] # split_dash cs
      else case split_dash cs of
             [] \<Rightarrow> [[c]]
           | p # ps \<Rightarrow> (c # p) # ps)"

section \<open>Dates\<close>

text \<open>
  A \<^verbatim>\<open>Date\<close> object is its time value, milliseconds since 1 January 1970, or is
  invalid (time value \<open>NaN\<close>). The local time zone is taken to be UTC, so that a local
  midnight is a multiple of a day; the calendar is the proleptic Gregorian one.
\<close>

datatype Date = Invalid_Date | Date int

definition msPerDay :: int where
  "msPerDay = 86400000"

definition is_leap :: "int \<Rightarrow> bool" where
  "is_leap y = (y mod 4 = 0 \<and> (y mod 100 \<noteq> 0 \<or> y mod 400 = 0))"

definition leap_days_before :: "int \<Rightarrow> int" where
  "leap_days_before y = (y + 3) div 4 - (y + 99) div 100 + (y + 399) div 400"

definition month_offset :: "int \<Rightarrow> int" where
  "month_offset m = [0, 31, 59, 90, 120, 151, 181, 212, 243, 273, 304, 334] ! nat m"

text \<open>
  The day number of a year, a month (which may lie outside 0..11) and a day of the
  month (which may lie outside the month): the language's \<^verbatim>\<open>MakeDay\<close>.
\<close>

definition MakeDay :: "int \<Rightarrow> int \<Rightarrow> int \<Rightarrow> int" where
  "MakeDay y m d =
     (let ym = y + m div 12; mn = m mod 12
      in 365 * ym + leap_days_before ym + month_offset mn
         + (if 2 \<le> mn \<and> is_leap ym then 1 else 0) + d - 1 - 719528)"

text \<open>
  Year, month (0..11) and day of the month of a day number, computed in stages: the
  400-year era and the day of the era, the year of the era, the day of the year
  (years running from 1 March), the month, and the shift back to years running from
  1 January.
\<close>

definition civil_from_mp :: "int \<Rightarrow> int \<Rightarrow> int \<Rightarrow> int \<times> int \<times> int" where
  "civil_from_mp y doy mp =
     (if mp < 10 then (y, mp + 2, doy - (153 * mp + 2) div 5 + 1)
      else (y + 1, mp - 10, doy - (153 * mp + 2) div 5 + 1))"

definition civil_from_doy :: "int \<Rightarrow> int \<Rightarrow> int \<times> int \<times> int" where
  "civil_from_doy y doy = civil_from_mp y doy ((5 * doy + 2) div 153)"

definition civil_from_yoe :: "int \<Rightarrow> int \<Rightarrow> int \<Rightarrow> int \<times> int \<times> int" where
  "civil_from_yoe era doe yoe =
     civil_from_doy (yoe + era * 400) (doe - (365 * yoe + yoe div 4 - yoe div 100))"

definition civil_from_doe :: "int \<Rightarrow> int \<Rightarrow> int \<times> int \<times> int" where
  "civil_from_doe era doe =
     civil_from_yoe era doe ((doe - doe div 1460 + doe div 36524 - doe div 146096) div 365)"

definition civil_from_days :: "int \<Rightarrow> int \<times> int \<times> int" where
  "civil_from_days z = civil_from_doe ((z + 719468) div 146097) ((z + 719468) mod 146097)"

text \<open>\<^verbatim>\<open>new Date(y, m, d)\<close>: a year from 0 to 99 means 1900 + y.\<close>

fun new_Date :: "number \<Rightarrow> number \<Rightarrow> number \<Rightarrow> Date" where
  "new_Date (Num y) (Num m) (Num d) =
     (let yi = trunc y; yy = (if 0 \<le> yi \<and> yi \<le> 99 then 1900 + yi else yi)
      in Date (msPerDay * MakeDay yy (trunc m) (trunc d)))"
| "new_Date _ _ _ = Invalid_Date"

fun getTime :: "Date \<Rightarrow> number" where
  "getTime (Date t) = Num (of_int t)"
| "getTime Invalid_Date = NaN"

fun getFullYear :: "Date \<Rightarrow> number" where
  "getFullYear (Date t) = Num (of_int (fst (civil_from_days (t div msPerDay))))"
| "getFullYear Invalid_Date = NaN"

fun getMonth :: "Date \<Rightarrow> number" where
  "getMonth (Date t) = Num (of_int (fst (snd (civil_from_days (t div msPerDay)))))"
| "getMonth Invalid_Date = NaN"

fun getDate :: "Date \<Rightarrow> number" where
  "getDate (Date t) = Num (of_int (snd (snd (civil_from_days (t div msPerDay)))))"
| "getDate Invalid_Date = NaN"

text \<open>Two dates compare by their time values.\<close>

definition date_le :: "Date \<Rightarrow> Date \<Rightarrow> bool" where
  "date_le a b = num_le (getTime a) (getTime b)"

definition date_gt :: "Date \<Rightarrow> Date \<Rightarrow> bool" where
  "date_gt a b = num_gt (getTime a) (getTime b)"

definition date_ge :: "Date \<Rightarrow> Date \<Rightarrow> bool" where
  "date_ge a b = num_ge (getTime a) (getTime b)"

text \<open>An element of an array of numbers; a missing one is \<^verbatim>\<open>undefined\<close>, \<open>NaN\<close> in arithmetic.\<close>

definition elem :: "number list \<Rightarrow> nat \<Rightarrow> number" where
  "elem xs i = (if i < length xs then xs ! i else NaN)"

definition parseAPIDate :: "string \<Rightarrow> Date" where
  "parseAPIDate dateStr =
     (let p = map Number (split_dash dateStr); d = elem p 0; m = elem p 1; y = elem p 2
      in new_Date y (m - Num 1) d)"

definition parseISODate :: "string \<Rightarrow> Date" where
  "parseISODate dateStr =
     (let p = map Number (split_dash dateStr); y = elem p 0; m = elem p 1; d = elem p 2
      in new_Date y (m - Num 1) d)"

section \<open>Valuation lookup\<close>

record NAVData =
  date :: string
  nav :: string

datatype Mode = PURCHASE | VALUATION

definition getNAV :: "NAVData list \<Rightarrow> Date \<Rightarrow> Mode \<Rightarrow> number option" where
  "getNAV history targetDate mode =
     (if history = [] then None
      else
        let targetTime = getTime targetDate in
        case mode of
          PURCHASE \<Rightarrow>
            (case find (\<lambda>h. num_ge (getTime (parseAPIDate (date h))) targetTime) (rev history) of
               Some h \<Rightarrow> Some (parseFloat (nav h))
             | None \<Rightarrow>
                 (let latestDate = parseAPIDate (date (hd history))
                  in if num_gt targetTime (getTime latestDate)
                     then Some (parseFloat (nav (hd history)))
                     else None))
        | VALUATION \<Rightarrow>
            (case find (\<lambda>h. num_le (getTime (parseAPIDate (date h))) targetTime) history of
               Some h \<Rightarrow> Some (parseFloat (nav h))
             | None \<Rightarrow> None))"

section \<open>Investments and the clock\<close>

text \<open>
  Of an \<^verbatim>\<open>Investment\<close> the engine reads the fields below. \<^verbatim>\<open>new Date()\<close> reads the clock:
  each function that calls it takes the clock's time value as its first argument.
\<close>

datatype InvestmentType = SIP | LUMPSUM

record Investment =
  name :: string
  isDirect :: bool
  navHistory :: "NAVData list"
  counterpartNavHistory :: "NAVData list option"
  type :: InvestmentType
  amount :: number
  startDate :: string
  endDate :: "string option"

record CashFlow =
  flow_date :: Date
  flow_amount :: number

text \<open>\<^verbatim>\<open>const now = new Date(); now.setHours(0,0,0,0)\<close>.\<close>

definition today :: "int \<Rightarrow> Date" where
  "today clock = Date (clock div msPerDay * msPerDay)"

text \<open>\<^verbatim>\<open>inv.endDate ? parseISODate(inv.endDate) : null\<close>; the empty string counts as absent.\<close>

definition parse_endDate :: "string option \<Rightarrow> Date option" where
  "parse_endDate e = (case e of None \<Rightarrow> None | Some s \<Rightarrow> if s = [] then None else Some (parseISODate s))"

text \<open>
  The month loops keep a cursor that is always the first day of a month at midnight;
  it is carried as the month count \<open>k = 12 * year + month\<close>, and one step
  (\<^verbatim>\<open>setMonth(getMonth() + 1)\<close>) is \<open>k + 1\<close>.
\<close>

definition month_start_time :: "int \<Rightarrow> int" where
  "month_start_time k = msPerDay * MakeDay (k div 12) (k mod 12) 1"

definition month_start :: "int \<Rightarrow> Date" where
  "month_start k = Date (month_start_time k)"

definition month_index :: "int \<Rightarrow> int" where
  "month_index t =
     (case civil_from_days (t div msPerDay) of (y, m, d) \<Rightarrow> 12 * y + m)"

text \<open>The payment date of a recurring contribution in month \<open>k\<close>, if it is due.\<close>

definition sip_payment_date :: "Date \<Rightarrow> Date \<Rightarrow> Date option \<Rightarrow> int \<Rightarrow> Date option" where
  "sip_payment_date now startDate' endDate' k =
     (let year = Num (of_int (k div 12));
          month = Num (of_int (k mod 12));
          startDay = getDate startDate';
          maxDayInMonth = getDate (new_Date year (month + Num 1) (Num 0));
          actualDay = Math_min startDay maxDayInMonth;
          paymentDate = new_Date year month actualDay;
          isStarted = num_ge (getTime paymentDate) (getTime startDate');
          isNotFuture = date_le paymentDate now;
          isBeforeEnd = (case endDate' of Some e \<Rightarrow> date_le paymentDate e | None \<Rightarrow> True)
      in if isStarted \<and> isNotFuture \<and> isBeforeEnd then Some paymentDate else None)"

section \<open>The cash-flow simulator\<close>

record SimulationState =
  units :: number
  totalInvested :: number
  cashFlows :: "CashFlow list"

record SimulationResult = SimulationState +
  currentValue :: number

text \<open>One purchase: \<^verbatim>\<open>const nav = getNAV(navHistory, d, 'PURCHASE'); if (nav) { ... }\<close>.\<close>

definition buy :: "Investment \<Rightarrow> NAVData list \<Rightarrow> Date \<Rightarrow> SimulationState \<Rightarrow> SimulationState" where
  "buy inv' navHistory' d s =
     (case getNAV navHistory' d PURCHASE of
        None \<Rightarrow> s
      | Some nav' \<Rightarrow>
          if truthy nav'
          then \<lparr>units = units s + amount inv' / nav',
                totalInvested = totalInvested s + amount inv',
                cashFlows = cashFlows s @ [\<lparr>flow_date = d, flow_amount = - amount inv'\<rparr>]\<rparr>
          else s)"

lemma div_round_up:
  fixes y n :: int
  assumes "0 < n"
  shows "(y + (n - 1)) div n = y div n + (if y mod n = 0 then 0 else 1)"
proof -
  have r: "0 \<le> y mod n" "y mod n < n"
    using assms by simp_all
  have n0: "n \<noteq> 0"
    using assms by simp
  have "y mod n + y div n * n = y"
    by (rule mod_div_mult_eq)
  then have e: "y + (n - 1) = (y mod n + (n - 1)) + (y div n) * n"
    by simp
  have split: "(y + (n - 1)) div n = y div n + (y mod n + (n - 1)) div n"
    by (subst e) (rule div_mult_self1 [OF n0])
  show ?thesis
  proof (cases "y mod n = 0")
    case True
    have "(n - 1) div n = 0"
      using assms by (intro div_pos_pos_trivial) simp_all
    with True split show ?thesis by simp
  next
    case False
    with r have lo: "0 \<le> y mod n - 1" and hi: "y mod n - 1 < n"
      by simp_all
    have e: "y mod n + (n - 1) = (y mod n - 1) + 1 * n"
      by simp
    have "(y mod n + (n - 1)) div n = 1 + (y mod n - 1) div n"
      by (subst e) (rule div_mult_self1 [OF n0])
    also have "(y mod n - 1) div n = 0"
      using lo hi by (rule div_pos_pos_trivial)
    finally show ?thesis using False split by simp
  qed
qed
lemma leap_days_before_step:
  "leap_days_before (y + 1) = leap_days_before y + (if is_leap y then 1 else 0)"
proof -
  have a: "(y + 3) div 4 = y div 4 + (if y mod 4 = 0 then 0 else 1)"
    using div_round_up [of 4 y] by simp
  have b: "(y + 99) div 100 = y div 100 + (if y mod 100 = 0 then 0 else 1)"
    using div_round_up [of 100 y] by simp
  have c: "(y + 399) div 400 = y div 400 + (if y mod 400 = 0 then 0 else 1)"
    using div_round_up [of 400 y] by simp
  have a': "(y + 1 + 3) div 4 = y div 4 + 1"
    by simp
  have b': "(y + 1 + 99) div 100 = y div 100 + 1"
    by simp
  have c': "(y + 1 + 399) div 400 = y div 400 + 1"
    by simp
  have d1: "y mod 400 = 0 \<Longrightarrow> y mod 100 = 0"
    by (simp add: mod_eq_0_iff_dvd) (rule dvd_trans [of 100 400], simp_all)
  have d2: "y mod 100 = 0 \<Longrightarrow> y mod 4 = 0"
    by (simp add: mod_eq_0_iff_dvd) (rule dvd_trans [of 4 100], simp_all)
  show ?thesis
    unfolding leap_days_before_def is_leap_def a b c a' b' c'
    using d1 d2 by auto
qed
lemma month_offset_step:
  assumes "0 \<le> r" "r < 11"
  shows "month_offset r + 28 \<le> month_offset (r + 1)"
proof -
  from assms have "r = 0 \<or> r = 1 \<or> r = 2 \<or> r = 3 \<or> r = 4 \<or> r = 5 \<or> r = 6 \<or> r = 7
      \<or> r = 8 \<or> r = 9 \<or> r = 10" by arith
  then show ?thesis
    by (auto simp: month_offset_def)
qed

lemma MakeDay_first:
  assumes "0 \<le> r" "r < 12"
  shows "MakeDay q r 1 = 365 * q + leap_days_before q + month_offset r
           + (if 2 \<le> r \<and> is_leap q then 1 else 0) - 719528"
proof -
  from assms have "r div 12 = 0" "r mod 12 = r"
    by simp_all
  then show ?thesis
    by (simp add: MakeDay_def)
qed

lemma MakeDay_next_year: "MakeDay q 11 1 < MakeDay (q + 1) 0 1"
  using MakeDay_first [of 11 q] MakeDay_first [of 0 "q + 1"]
  by (simp add: month_offset_def leap_days_before_step)

lemma MakeDay_next_month:
  assumes "0 \<le> r" "r < 11"
  shows "MakeDay q r 1 < MakeDay q (r + 1) 1"
proof -
  have a: "MakeDay q r 1 = 365 * q + leap_days_before q + month_offset r
             + (if 2 \<le> r \<and> is_leap q then 1 else 0) - 719528"
    using assms by (intro MakeDay_first) simp_all
  have b: "MakeDay q (r + 1) 1 = 365 * q + leap_days_before q + month_offset (r + 1)
             + (if 2 \<le> r + 1 \<and> is_leap q then 1 else 0) - 719528"
    using assms by (intro MakeDay_first) simp_all
  have c: "(if 2 \<le> r \<and> is_leap q then 1 else 0 :: int)
             \<le> (if 2 \<le> r + 1 \<and> is_leap q then 1 else 0)"
    by simp
  from month_offset_step [OF assms] c show ?thesis
    unfolding a b by linarith
qed

lemma month_succ:
  fixes q r :: int
  assumes "0 \<le> r" "r < 12"
  shows "(12 * q + r + 1) div 12 = (if r = 11 then q + 1 else q)"
    and "(12 * q + r + 1) mod 12 = (if r = 11 then 0 else r + 1)"
proof -
  have "(12 * q + r + 1) div 12 = (if r = 11 then q + 1 else q)
      \<and> (12 * q + r + 1) mod 12 = (if r = 11 then 0 else r + 1)"
  proof (cases "r = 11")
    case True
    then have e: "12 * q + r + 1 = 12 * (q + 1) + 0"
      by simp
    have "(12 * q + r + 1) div 12 = q + 1"
      by (rule int_div_pos_eq [OF e]) simp_all
    moreover have "(12 * q + r + 1) mod 12 = 0"
      by (rule int_mod_pos_eq [OF e]) simp_all
    ultimately show ?thesis
      using True by simp
  next
    case False
    have e: "12 * q + r + 1 = 12 * q + (r + 1)"
      by simp
    from False assms have b: "0 \<le> r + 1" "r + 1 < 12"
      by simp_all
    have "(12 * q + r + 1) div 12 = q"
      by (rule int_div_pos_eq [OF e b])
    moreover have "(12 * q + r + 1) mod 12 = r + 1"
      by (rule int_mod_pos_eq [OF e b])
    ultimately show ?thesis
      using False by simp
  qed
  then show "(12 * q + r + 1) div 12 = (if r = 11 then q + 1 else q)"
    and "(12 * q + r + 1) mod 12 = (if r = 11 then 0 else r + 1)"
    by simp_all
qed

lemma month_start_day_mono:
  "MakeDay (k div 12) (k mod 12) 1 < MakeDay ((k + 1) div 12) ((k + 1) mod 12) 1"
proof -
  define q where "q = k div 12"
  define r where "r = k mod 12"
  have r: "0 \<le> r" "r < 12"
    by (simp_all add: r_def)
  have k: "k = 12 * q + r"
    by (simp add: q_def r_def)
  have "MakeDay q r 1 < MakeDay ((12 * q + r + 1) div 12) ((12 * q + r + 1) mod 12) 1"
  proof (cases "r = 11")
    case True
    show ?thesis
      unfolding month_succ [OF r] using True by (simp add: MakeDay_next_year)
  next
    case False
    with r have "r < 11"
      by simp
    with r have "MakeDay q r 1 < MakeDay q (r + 1) 1"
      by (intro MakeDay_next_month)
    then show ?thesis
      unfolding month_succ [OF r] using False by simp
  qed
  moreover have "12 * q + r + 1 = k + 1"
    using k by simp
  ultimately show ?thesis
    by (simp only: q_def r_def)
qed

lemma month_start_time_mono: "month_start_time k < month_start_time (k + 1)"
  using month_start_day_mono [of k] by (simp add: month_start_time_def msPerDay_def)

function sip_loop ::
  "Date \<Rightarrow> Investment \<Rightarrow> NAVData list \<Rightarrow> Date \<Rightarrow> Date option \<Rightarrow> int \<Rightarrow> SimulationState
     \<Rightarrow> SimulationState" where
  "sip_loop now inv' navHistory' startDate' endDate' k s =
     (if date_le (month_start k) now
      then sip_loop now inv' navHistory' startDate' endDate' (k + 1)
             (case sip_payment_date now startDate' endDate' k of
                Some paymentDate \<Rightarrow> buy inv' navHistory' paymentDate s
              | None \<Rightarrow> s)
      else s)"
  by pat_completeness auto

text \<open>The months left until the cursor passes \<open>now\<close>, as a bound on the time between them.\<close>

definition time_left :: "Date \<Rightarrow> int \<Rightarrow> nat" where
  "time_left now k = (case now of Invalid_Date \<Rightarrow> 0 | Date t \<Rightarrow> nat (t - month_start_time k + 1))"

lemma time_left_decreases:
  assumes "date_le (month_start k) now"
  shows "time_left now (k + 1) < time_left now k"
proof -
  from assms obtain t where t: "now = Date t"
    by (cases now) (simp_all add: date_le_def month_start_def)
  from assms t have "month_start_time k \<le> t"
    by (simp add: date_le_def month_start_def)
  with month_start_time_mono [of k] show ?thesis
    by (simp add: time_left_def t)
qed

termination sip_loop
  by (relation "measure (\<lambda>(now, inv', navHistory', startDate', endDate', k, s). time_left now k)")
    (simp_all add: time_left_decreases)

declare sip_loop.simps [simp del]

text \<open>
  \<^verbatim>\<open>simulateInvestment(inv, navHistory)\<close>. For a recurring investment the cursor starts at
  the first day of the month of \<^verbatim>\<open>startDate\<close>; an invalid start date makes the loop
  condition false at once.
\<close>

definition simulateInvestment :: "int \<Rightarrow> Investment \<Rightarrow> NAVData list option \<Rightarrow> SimulationResult" where
  "simulateInvestment clock inv' navHistory' =
     (case navHistory' of
        None \<Rightarrow> \<lparr>units = Num 0, totalInvested = Num 0, cashFlows = [], currentValue = Num 0\<rparr>
      | Some h \<Rightarrow>
          if h = [] then \<lparr>units = Num 0, totalInvested = Num 0, cashFlows = [], currentValue = Num 0\<rparr>
          else
            let startDate' = parseISODate (startDate inv');
                endDate' = parse_endDate (endDate inv');
                now = today clock;
                s0 = \<lparr>units = Num 0, totalInvested = Num 0, cashFlows = []\<rparr>;
                s = (if type inv' = LUMPSUM then buy inv' h startDate' s0
                     else case startDate' of
                            Invalid_Date \<Rightarrow> s0
                          | Date t \<Rightarrow> sip_loop now inv' h startDate' endDate' (month_index t) s0);
                currentNav = parseFloat (nav (hd h))
            in \<lparr>units = units s, totalInvested = totalInvested s, cashFlows = cashFlows s,
                currentValue = units s * currentNav\<rparr>)"

section \<open>The monthly aggregator\<close>

record ChartDataPoint =
  month :: string
  directValue :: number
  regularValue :: number
  actualValue :: number
  counterpartValue :: number
  investedAmount :: number
  benchmarkValue :: "number option"

text \<open>
  An element of the working array \<^verbatim>\<open>portfolio\<close>: the investment with its parsed dates and
  its accumulators (\<open>entry_totalInvested\<close> is the element's \<^verbatim>\<open>totalInvested\<close>).
\<close>

record PortfolioEntry =
  investment :: Investment
  parsedStartDate :: Date
  parsedEndDate :: "Date option"
  unitsDirect :: number
  unitsRegular :: number
  entry_totalInvested :: number
  hasLumpsumInvested :: bool

text \<open>\<^verbatim>\<open>h && h.length > 0\<close>, \<^verbatim>\<open>h?.length\<close> as a condition.\<close>

definition has_length :: "NAVData list option \<Rightarrow> bool" where
  "has_length h = (case h of None \<Rightarrow> False | Some h' \<Rightarrow> h' \<noteq> [])"

definition lumpsum_payment_date :: "PortfolioEntry \<Rightarrow> int \<Rightarrow> Date option" where
  "lumpsum_payment_date e k =
     (if \<not> hasLumpsumInvested e
      then (let sameMonth = (strict_eq (getMonth (parsedStartDate e)) (Num (of_int (k mod 12)))
                            \<and> strict_eq (getFullYear (parsedStartDate e)) (Num (of_int (k div 12))))
            in if sameMonth then Some (parsedStartDate e) else None)
      else None)"

definition payment_date :: "Date \<Rightarrow> int \<Rightarrow> PortfolioEntry \<Rightarrow> Date option" where
  "payment_date now k e =
     (if type (investment e) = SIP
      then sip_payment_date now (parsedStartDate e) (parsedEndDate e) k
      else lumpsum_payment_date e k)"

text \<open>\<^verbatim>\<open>const nav = getNAV(h, d, 'PURCHASE'); if (nav) u += amount / nav\<close>.\<close>

definition units_bought :: "NAVData list option \<Rightarrow> Date \<Rightarrow> number \<Rightarrow> number \<Rightarrow> number" where
  "units_bought h d amt u =
     (case h of
        None \<Rightarrow> u
      | Some h' \<Rightarrow>
          (case getNAV h' d PURCHASE of
             None \<Rightarrow> u
           | Some nav' \<Rightarrow> if truthy nav' then u + amt / nav' else u))"

definition purchase ::
  "NAVData list option \<Rightarrow> Date \<Rightarrow> PortfolioEntry \<Rightarrow> number \<Rightarrow> PortfolioEntry \<times> number" where
  "purchase benchmarkHistory paymentDate e benchmarkUnits =
     (let i = investment e;
          lumpsumDone = (if type i = LUMPSUM then True else hasLumpsumInvested e);
          uD = (if isDirect i \<and> navHistory i \<noteq> []
                then units_bought (Some (navHistory i)) paymentDate (amount i) (unitsDirect e)
                else if \<not> isDirect i \<and> has_length (counterpartNavHistory i)
                then units_bought (counterpartNavHistory i) paymentDate (amount i) (unitsDirect e)
                else unitsDirect e);
          uR = (if \<not> isDirect i \<and> navHistory i \<noteq> []
                then units_bought (Some (navHistory i)) paymentDate (amount i) (unitsRegular e)
                else if isDirect i \<and> has_length (counterpartNavHistory i)
                then units_bought (counterpartNavHistory i) paymentDate (amount i) (unitsRegular e)
                else unitsRegular e);
          bU = (if has_length benchmarkHistory
                then units_bought benchmarkHistory paymentDate (amount i) benchmarkUnits
                else benchmarkUnits)
      in (e\<lparr>hasLumpsumInvested := lumpsumDone, unitsDirect := uD, unitsRegular := uR,
             entry_totalInvested := entry_totalInvested e + amount i\<rparr>, bU))"

definition purchase_step ::
  "Date \<Rightarrow> int \<Rightarrow> NAVData list option \<Rightarrow> PortfolioEntry \<Rightarrow> number \<Rightarrow> PortfolioEntry \<times> number" where
  "purchase_step now k benchmarkHistory e benchmarkUnits =
     (case payment_date now k e of
        None \<Rightarrow> (e, benchmarkUnits)
      | Some paymentDate \<Rightarrow> purchase benchmarkHistory paymentDate e benchmarkUnits)"

text \<open>The first \<^verbatim>\<open>portfolio.forEach\<close> of a month; \<^verbatim>\<open>benchmarkUnits\<close> is shared by the elements.\<close>

fun purchase_all ::
  "Date \<Rightarrow> int \<Rightarrow> NAVData list option \<Rightarrow> PortfolioEntry list \<Rightarrow> number
     \<Rightarrow> PortfolioEntry list \<times> number" where
  "purchase_all now k benchmarkHistory [] benchmarkUnits = ([], benchmarkUnits)"
| "purchase_all now k benchmarkHistory (e # es) benchmarkUnits =
     (case purchase_step now k benchmarkHistory e benchmarkUnits of
        (e', bU) \<Rightarrow>
          (case purchase_all now k benchmarkHistory es bU of
             (es', bU') \<Rightarrow> (e' # es', bU')))"

text \<open>
  The value of a unit balance at the month end:
  \<^verbatim>\<open>let val = 0; if (units > 0 && history) { const nav = getNAV(history, monthEndDate, 'VALUATION'); if (nav) val = units * nav; }\<close>.
\<close>

definition scenario_value :: "NAVData list option \<Rightarrow> number \<Rightarrow> Date \<Rightarrow> number" where
  "scenario_value history u monthEndDate =
     (case history of
        None \<Rightarrow> Num 0
      | Some h \<Rightarrow>
          if num_gt u (Num 0)
          then (case getNAV h monthEndDate VALUATION of
                  None \<Rightarrow> Num 0
                | Some nav' \<Rightarrow> if truthy nav' then u * nav' else Num 0)
          else Num 0)"

definition valD :: "Date \<Rightarrow> PortfolioEntry \<Rightarrow> number" where
  "valD monthEndDate e =
     (let i = investment e;
          historyD = (if isDirect i then Some (navHistory i) else counterpartNavHistory i)
      in scenario_value historyD (unitsDirect e) monthEndDate)"

definition valR :: "Date \<Rightarrow> PortfolioEntry \<Rightarrow> number" where
  "valR monthEndDate e =
     (let i = investment e;
          historyR = (if \<not> isDirect i then Some (navHistory i) else counterpartNavHistory i)
      in scenario_value historyR (unitsRegular e) monthEndDate)"

record MonthTotals =
  totalDirectVal :: number
  totalRegularVal :: number
  totalActualVal :: number
  totalCounterpartVal :: number
  month_totalInvested :: number

text \<open>The second \<^verbatim>\<open>portfolio.forEach\<close> of a month, one element.\<close>

definition add_entry :: "Date \<Rightarrow> MonthTotals \<Rightarrow> PortfolioEntry \<Rightarrow> MonthTotals" where
  "add_entry monthEndDate t e =
     \<lparr>totalDirectVal = totalDirectVal t + valD monthEndDate e,
      totalRegularVal = totalRegularVal t + valR monthEndDate e,
      totalActualVal = totalActualVal t
         + (if isDirect (investment e) then valD monthEndDate e else valR monthEndDate e),
      totalCounterpartVal = totalCounterpartVal t
         + (if isDirect (investment e) then valR monthEndDate e else valD monthEndDate e),
      month_totalInvested = month_totalInvested t + entry_totalInvested e\<rparr>"

definition month_totals :: "Date \<Rightarrow> PortfolioEntry list \<Rightarrow> MonthTotals" where
  "month_totals monthEndDate portfolio =
     foldl (add_entry monthEndDate)
       \<lparr>totalDirectVal = Num 0, totalRegularVal = Num 0, totalActualVal = Num 0,
        totalCounterpartVal = Num 0, month_totalInvested = Num 0\<rparr>
       portfolio"

text \<open>
  \<^verbatim>\<open>let monthEndDate = new Date(year, month + 1, 0); if (monthEndDate > now) monthEndDate = new Date(now)\<close>.
\<close>

definition month_end :: "Date \<Rightarrow> int \<Rightarrow> Date" where
  "month_end now k =
     (let monthEndDate = new_Date (Num (of_int (k div 12))) (Num (of_int (k mod 12)) + Num 1) (Num 0)
      in if date_gt monthEndDate now then now else monthEndDate)"

text \<open>
  \<^verbatim>\<open>toLocaleDateString('en-US', { month: 'short', year: '2-digit' })\<close>, as in \<^verbatim>\<open>Jan 24\<close>.
\<close>

definition two_digits :: "nat \<Rightarrow> string" where
  "two_digits n = [char_of (48 + n div 10 mod 10), char_of (48 + n mod 10)]"

definition month_label :: "Date \<Rightarrow> string" where
  "month_label d =
     (case d of
        Invalid_Date \<Rightarrow> ''Invalid Date''
      | Date t \<Rightarrow>
          (case civil_from_days (t div msPerDay) of
             (y, m, _) \<Rightarrow>
               [''Jan'', ''Feb'', ''Mar'', ''Apr'', ''May'', ''Jun'',
                ''Jul'', ''Aug'', ''Sep'', ''Oct'', ''Nov'', ''Dec''] ! nat m
               @ '' '' @ two_digits (nat (y mod 100))))"

text \<open>The data point of month \<open>k\<close>, pushed when the invested total is positive.\<close>

definition snapshot ::
  "Date \<Rightarrow> NAVData list option \<Rightarrow> int \<Rightarrow> PortfolioEntry list \<Rightarrow> number \<Rightarrow> ChartDataPoint list" where
  "snapshot now benchmarkHistory k portfolio benchmarkUnits =
     (let monthEndDate = month_end now k;
          t = month_totals monthEndDate portfolio;
          hasBenchmark = has_length benchmarkHistory;
          totalBenchmarkVal =
            (if hasBenchmark \<and> num_gt benchmarkUnits (Num 0)
             then scenario_value benchmarkHistory benchmarkUnits monthEndDate
             else Num 0)
      in if num_gt (month_totalInvested t) (Num 0)
         then [\<lparr>month = month_label monthEndDate,
                 directValue = Math_round (totalDirectVal t),
                 regularValue = Math_round (totalRegularVal t),
                 actualValue = Math_round (totalActualVal t),
                 counterpartValue = Math_round (totalCounterpartVal t),
                 investedAmount = Math_round (month_totalInvested t),
                 benchmarkValue = (if hasBenchmark then Some (Math_round totalBenchmarkVal) else None)\<rparr>]
         else [])"

function backtest_loop ::
  "Date \<Rightarrow> NAVData list option \<Rightarrow> int \<Rightarrow> PortfolioEntry list \<Rightarrow> number \<Rightarrow> ChartDataPoint list" where
  "backtest_loop now benchmarkHistory k portfolio benchmarkUnits =
     (if date_le (month_start k) now
      then (case purchase_all now k benchmarkHistory portfolio benchmarkUnits of
              (portfolio', bU) \<Rightarrow>
                snapshot now benchmarkHistory k portfolio' bU
                @ backtest_loop now benchmarkHistory (k + 1) portfolio' bU)
      else [])"
  by pat_completeness auto
termination
  by (relation "measure (\<lambda>(now, benchmarkHistory, k, portfolio, benchmarkUnits). time_left now k)")
    (simp_all add: time_left_decreases)

declare backtest_loop.simps [simp del]

text \<open>\<^verbatim>\<open>Math.min(...xs)\<close> and \<^verbatim>\<open>new Date(value)\<close>.\<close>

definition Math_min_list :: "number list \<Rightarrow> number" where
  "Math_min_list xs = foldl Math_min PInf xs"

fun Date_of_time :: "number \<Rightarrow> Date" where
  "Date_of_time (Num t) = Date (trunc t)"
| "Date_of_time _ = Invalid_Date"

definition init_entry :: "Investment \<Rightarrow> PortfolioEntry" where
  "init_entry i =
     \<lparr>investment = i,
      parsedStartDate = parseISODate (startDate i),
      parsedEndDate = parse_endDate (endDate i),
      unitsDirect = Num 0, unitsRegular = Num 0, entry_totalInvested = Num 0,
      hasLumpsumInvested = False\<rparr>"

definition generateBacktestData ::
  "int \<Rightarrow> Investment list \<Rightarrow> NAVData list option \<Rightarrow> ChartDataPoint list" where
  "generateBacktestData clock investments benchmarkHistory =
     (if investments = [] then []
      else
        let activeInvestments =
              filter (\<lambda>i. navHistory i \<noteq> [] \<or> has_length (counterpartNavHistory i)) investments
        in if activeInvestments = [] then []
           else
             let startDates = map (\<lambda>i. getTime (parseISODate (startDate i))) activeInvestments;
                 minDate = Date_of_time (Math_min_list startDates);
                 now = today clock;
                 portfolio = map init_entry activeInvestments
             in case minDate of
                  Invalid_Date \<Rightarrow> []
                | Date t \<Rightarrow> backtest_loop now benchmarkHistory (month_index t) portfolio (Num 0))"

section \<open>Return and risk metrics\<close>

text \<open>One flow's share of the net present value and of its derivative at \<open>rate\<close>.\<close>

definition xirr_flow :: "number \<Rightarrow> number \<Rightarrow> number \<times> number \<Rightarrow> CashFlow \<Rightarrow> number \<times> number" where
  "xirr_flow t0 rate acc flow =
     (case acc of
        (fValue, fDerivative) \<Rightarrow>
          (let days = (getTime (flow_date flow) - t0) / Num 86400000;
               years = days / Num 365;
               r = Math_max rate (Num (- 0.99));
               pvFactor = Math_pow (Num 1 + r) years
           in (fValue + flow_amount flow / pvFactor,
               fDerivative - (years * flow_amount flow) / (pvFactor * (Num 1 + r)))))"

definition xirr_sums :: "number \<Rightarrow> CashFlow list \<Rightarrow> number \<times> number" where
  "xirr_sums rate flows =
     foldl (xirr_flow (getTime (flow_date (hd flows))) rate) (Num 0, Num 0) flows"

function xirr_loop :: "nat \<Rightarrow> number \<Rightarrow> CashFlow list \<Rightarrow> number" where
  "xirr_loop i rate flows =
     (if i < 50
      then (let fValue = fst (xirr_sums rate flows);
                fDerivative = snd (xirr_sums rate flows)
            in if num_lt (Math_abs fValue) (Num 1) then rate * Num 100
               else (let newRate = rate - fValue / fDerivative
                     in if isNaN newRate \<or> \<not> isFinite newRate then Num 0
                        else xirr_loop (i + 1) newRate flows))
      else rate * Num 100)"
  by pat_completeness auto
termination
  by (relation "measure (\<lambda>(i, rate, flows). 50 - i)") simp_all

declare xirr_loop.simps [simp del]

definition calculateXIRR :: "CashFlow list \<Rightarrow> number \<Rightarrow> Date \<Rightarrow> number" where
  "calculateXIRR transactions currentValue' valuationDate =
     (let flows = transactions @ [\<lparr>flow_date = valuationDate, flow_amount = currentValue'\<rparr>]
      in if length flows < 2 then Num 0 else xirr_loop 0 (Num (1 / 10)) flows)"

definition drawdown_step :: "number \<times> number \<Rightarrow> number \<Rightarrow> number \<times> number" where
  "drawdown_step acc v =
     (case acc of
        (maxPeak, maxDrawdown') \<Rightarrow>
          (let maxPeak' = (if num_gt v maxPeak then v else maxPeak);
               drawdown = (maxPeak' - v) / maxPeak'
           in (maxPeak', if num_gt drawdown maxDrawdown' then drawdown else maxDrawdown')))"

definition calculateMaxDrawdown :: "number list \<Rightarrow> number" where
  "calculateMaxDrawdown values =
     (if values = [] then Num 0
      else snd (foldl drawdown_step (hd values, Num 0) values) * Num 100)"

text \<open>\<^verbatim>\<open>xs.reduce((a, b) => a + b, 0)\<close> and the period-over-period returns of a list of values.\<close>

definition sum_numbers :: "number list \<Rightarrow> number" where
  "sum_numbers xs = foldl (+) (Num 0) xs"

definition period_returns :: "number list \<Rightarrow> number list" where
  "period_returns xs = map (\<lambda>(prev, curr). (curr - prev) / prev) (zip xs (tl xs))"

definition time_value :: "Date \<Rightarrow> int" where
  "time_value d = (case d of Date t \<Rightarrow> t | Invalid_Date \<Rightarrow> 0)"

definition calculateVolatility :: "NAVData list \<Rightarrow> Date \<Rightarrow> number" where
  "calculateVolatility navHistory' startDate' =
     (let history =
            sort_key (\<lambda>h. time_value (fst h))
              (filter (\<lambda>h. date_ge (fst h) startDate')
                 (map (\<lambda>h. (parseAPIDate (date h), parseFloat (nav h))) navHistory'))
      in if length history < 30 then Num 0
         else
           let returns = period_returns (map snd history);
               n = Num (of_nat (length returns));
               mean = sum_numbers returns / n;
               variance = sum_numbers (map (\<lambda>b. Math_pow (b - mean) (Num 2)) returns) / n
           in Math_sqrt variance * Math_sqrt (Num 252) * Num 100)"

text \<open>
  The dates of the benchmark, oldest first, that are on or after \<open>startDate\<close> and a key of
  \<^verbatim>\<open>assetMap\<close>; the map keeps the last value set for a key.
\<close>

definition assetMap :: "NAVData list \<Rightarrow> string \<Rightarrow> number option" where
  "assetMap assetHistory = map_of (rev (map (\<lambda>h. (date h, parseFloat (nav h))) assetHistory))"

definition commonDates :: "NAVData list \<Rightarrow> NAVData list \<Rightarrow> Date \<Rightarrow> string list" where
  "commonDates assetHistory benchmarkHistory startDate' =
     rev (map date
            (filter (\<lambda>h. date_ge (parseAPIDate (date h)) startDate'
                          \<and> assetMap assetHistory (date h) \<noteq> None)
               benchmarkHistory))"

definition asset_value :: "NAVData list \<Rightarrow> string \<Rightarrow> number" where
  "asset_value assetHistory d = (case assetMap assetHistory d of Some v \<Rightarrow> v | None \<Rightarrow> NaN)"

definition bench_value :: "NAVData list \<Rightarrow> string \<Rightarrow> number" where
  "bench_value benchmarkHistory d =
     (case find (\<lambda>h. date h = d) benchmarkHistory of Some h \<Rightarrow> parseFloat (nav h) | None \<Rightarrow> NaN)"

definition covariance_sum :: "number list \<Rightarrow> number list \<Rightarrow> number" where
  "covariance_sum xs ys =
     (let meanX = sum_numbers xs / Num (of_nat (length xs));
          meanY = sum_numbers ys / Num (of_nat (length ys))
      in sum_numbers (map (\<lambda>(x, y). (x - meanX) * (y - meanY)) (zip xs ys)))"

definition variance_sum :: "number list \<Rightarrow> number" where
  "variance_sum ys =
     (let meanY = sum_numbers ys / Num (of_nat (length ys))
      in sum_numbers (map (\<lambda>y. Math_pow (y - meanY) (Num 2)) ys))"

definition calculateBeta :: "NAVData list \<Rightarrow> NAVData list \<Rightarrow> Date \<Rightarrow> number" where
  "calculateBeta assetHistory benchmarkHistory startDate' =
     (let dates = commonDates assetHistory benchmarkHistory startDate'
      in if length dates < 30 then Num 1
         else
           let assetReturns = period_returns (map (asset_value assetHistory) dates);
               benchReturns = period_returns (map (bench_value benchmarkHistory) dates);
               covariance = covariance_sum assetReturns benchReturns;
               varianceBench = variance_sum benchReturns
           in if strict_eq varianceBench (Num 0) then Num 1 else covariance / varianceBench)"

section \<open>Portfolio statistics\<close>

record PortfolioMetrics =
  stats_totalInvested :: number
  stats_currentValue :: number
  stats_regularValue :: number
  stats_actualValue :: number
  stats_counterpartValue :: number
  netImpact :: number
  yearlyImpact :: number
  xirr :: number
  absoluteReturn :: number
  maxDrawdown :: number
  romad :: number
  alpha :: "number option"
  beta :: "number option"

text \<open>
  The \<^verbatim>\<open>investments.forEach\<close> of \<^verbatim>\<open>calculatePortfolioStats\<close>: the accumulator is
  (\<^verbatim>\<open>totalInvested\<close>, \<^verbatim>\<open>actualValue\<close>, \<^verbatim>\<open>counterpartValue\<close>, \<^verbatim>\<open>allCashFlows\<close>).
\<close>

definition add_investment ::
  "int \<Rightarrow> number \<times> number \<times> number \<times> CashFlow list \<Rightarrow> Investment
     \<Rightarrow> number \<times> number \<times> number \<times> CashFlow list" where
  "add_investment clock acc inv' =
     (case acc of
        (totalInvested', actualValue', counterpartValue', allCashFlows) \<Rightarrow>
          (let stats = simulateInvestment clock inv' (Some (navHistory inv'));
               counterpartCurrent =
                 (if has_length (counterpartNavHistory inv')
                  then currentValue (simulateInvestment clock inv' (counterpartNavHistory inv'))
                  else currentValue stats)
           in (totalInvested' + totalInvested stats,
               actualValue' + currentValue stats,
               counterpartValue' + counterpartCurrent,
               allCashFlows @ cashFlows stats)))"

text \<open>The returns of the portfolio and of the benchmark between two consecutive data points.\<close>

definition month_returns :: "ChartDataPoint \<times> ChartDataPoint \<Rightarrow> (number \<times> number) option" where
  "month_returns pc =
     (case pc of
        (prevPoint, currPoint) \<Rightarrow>
          (let cashflow = investedAmount currPoint - investedAmount prevPoint
           in case (benchmarkValue prevPoint, benchmarkValue currPoint) of
                (Some prevB, Some currB) \<Rightarrow>
                  if num_gt (actualValue prevPoint) (Num 0)
                  then (let pDenom = actualValue prevPoint + cashflow;
                            pRet = (if num_gt pDenom (Num 0)
                                    then (actualValue currPoint - actualValue prevPoint - cashflow) / pDenom
                                    else Num 0);
                            bDenom = prevB + cashflow;
                            bRet = (if num_gt bDenom (Num 0)
                                    then (currB - prevB - cashflow) / bDenom
                                    else Num 0)
                        in Some (pRet, bRet))
                  else None
              | _ \<Rightarrow> None))"

text \<open>\<^verbatim>\<open>alpha\<close> and \<^verbatim>\<open>beta\<close> as the local variables stand before the \<^verbatim>\<open>return\<close>.\<close>

definition portfolio_alpha_beta ::
  "ChartDataPoint list \<Rightarrow> NAVData list option \<Rightarrow> number \<Rightarrow> number \<times> number" where
  "portfolio_alpha_beta chartData benchmarkHistory xirr' =
     (if has_length benchmarkHistory \<and> 6 < length chartData
      then (let rets = List.map_filter month_returns (zip chartData (tl chartData));
                portfolioReturns = map fst rets;
                benchmarkReturns = map snd rets
            in if 0 < length portfolioReturns
               then (let meanBench = sum_numbers benchmarkReturns / Num (of_nat (length benchmarkReturns));
                         cov = covariance_sum portfolioReturns benchmarkReturns;
                         varBench = variance_sum benchmarkReturns;
                         beta' = (if num_gt varBench (Num 0) then cov / varBench else Num 1);
                         rf = Num (6 / 100);
                         rm = Math_pow (Num 1 + meanBench) (Num 12) - Num 1;
                         rp = xirr' / Num 100;
                         alpha' = (rp - (rf + beta' * (rm - rf))) * Num 100
                     in (alpha', beta'))
               else (Num 0, Num 0))
      else (Num 0, Num 0))"

definition calculatePortfolioStats ::
  "int \<Rightarrow> Investment list \<Rightarrow> ChartDataPoint list \<Rightarrow> NAVData list option \<Rightarrow> PortfolioMetrics" where
  "calculatePortfolioStats clock investments chartData benchmarkHistory =
     (case foldl (add_investment clock) (Num 0, Num 0, Num 0, []) investments of
        (totalInvested', actualValue', counterpartValue', allCashFlows) \<Rightarrow>
          (let netImpact' = actualValue' - counterpartValue';
               yearlyImpact' =
                 (if 0 < length chartData
                  then (let years = Num (of_nat (length chartData)) / Num 12
                        in netImpact' / (if num_lt years (Num (1 / 10)) then Num (1 / 10) else years))
                  else Num 0);
               xirr' = calculateXIRR allCashFlows actualValue' (Date clock);
               absoluteReturn' =
                 (if num_gt totalInvested' (Num 0)
                  then ((actualValue' - totalInvested') / totalInvested') * Num 100
                  else Num 0);
               maxDrawdown' = calculateMaxDrawdown (map actualValue chartData);
               romad' = (if num_gt maxDrawdown' (Num 0) then xirr' / maxDrawdown'
                         else if num_gt xirr' (Num 0) then Num 100 else Num 0);
               ab = portfolio_alpha_beta chartData benchmarkHistory xirr'
           in \<lparr>stats_totalInvested = totalInvested',
               stats_currentValue = actualValue',
               stats_regularValue = Num 0,
               stats_actualValue = actualValue',
               stats_counterpartValue = counterpartValue',
               netImpact = netImpact',
               yearlyImpact = yearlyImpact',
               xirr = xirr',
               absoluteReturn = absoluteReturn',
               maxDrawdown = maxDrawdown',
               romad = romad',
               alpha = (case benchmarkHistory of None \<Rightarrow> None | Some b \<Rightarrow> Some (fst ab)),
               beta = (case benchmarkHistory of None \<Rightarrow> None | Some b \<Rightarrow> Some (snd ab))\<rparr>))"

section \<open>Per-fund ratios\<close>

record FundRatio =
  fund_name :: string
  fund_invested :: number
  fund_currentValue :: number
  fund_xirr :: number
  fund_volatility :: number
  fund_beta :: number
  fund_alpha :: number

record FundRatios =
  funds :: "FundRatio list"
  portfolio_invested :: number
  portfolio_currentValue :: number
  portfolio_xirr :: number
  portfolio_volatility :: number
  portfolio_beta :: number
  portfolio_alpha :: number

text \<open>\<^verbatim>\<open>beta\<close> and \<^verbatim>\<open>alpha\<close> of one fund, as the local variables stand before the \<^verbatim>\<open>return\<close>.\<close>

definition fund_beta_alpha ::
  "int \<Rightarrow> NAVData list \<Rightarrow> NAVData list option \<Rightarrow> Date \<Rightarrow> number \<Rightarrow> number \<times> number" where
  "fund_beta_alpha clock history benchmarkHistory startDate' xirr' =
     (case benchmarkHistory of
        None \<Rightarrow> (Num 0, Num 0)
      | Some b \<Rightarrow>
          if b = [] then (Num 0, Num 0)
          else
            (let beta' = calculateBeta history b startDate'
             in case getNAV b startDate' PURCHASE of
                  None \<Rightarrow> (beta', Num 0)
                | Some bStartNav \<Rightarrow>
                    if truthy bStartNav
                    then (let bEndNav = parseFloat (nav (hd b));
                              years = (getTime (Date clock) - getTime startDate') / Num 31536000000;
                              rm = Math_pow (bEndNav / bStartNav) (Num 1 / Math_max years (Num (1 / 10)))
                                   - Num 1;
                              rf = Num (6 / 100)
                          in (beta', ((xirr' / Num 100) - (rf + beta' * (rm - rf))) * Num 100))
                    else (beta', Num 0)))"

text \<open>The element that \<^verbatim>\<open>investments.map\<close> makes of an investment; \<^verbatim>\<open>null\<close> is \<open>None\<close>.\<close>

definition fund_ratio :: "int \<Rightarrow> NAVData list option \<Rightarrow> Investment \<Rightarrow> FundRatio option" where
  "fund_ratio clock benchmarkHistory inv' =
     (let history = navHistory inv'
      in if history = [] then None
         else
           (let stats = simulateInvestment clock inv' (Some history);
                startDate' = parseISODate (startDate inv');
                xirr' = calculateXIRR (cashFlows stats) (currentValue stats) (Date clock);
                volatility = calculateVolatility history startDate';
                ba = fund_beta_alpha clock history benchmarkHistory startDate' xirr'
            in Some \<lparr>fund_name = name inv',
                      fund_invested = totalInvested stats,
                      fund_currentValue = currentValue stats,
                      fund_xirr = xirr',
                      fund_volatility = volatility,
                      fund_beta = fst ba,
                      fund_alpha = snd ba\<rparr>))"

definition weighted :: "(FundRatio \<Rightarrow> number) \<Rightarrow> FundRatio list \<Rightarrow> number \<Rightarrow> number" where
  "weighted field fs totalValue =
     (if num_gt totalValue (Num 0)
      then foldl (\<lambda>acc f. acc + field f * (fund_currentValue f / totalValue)) (Num 0) fs
      else Num 0)"

definition calculateFundRatios :: "int \<Rightarrow> Investment list \<Rightarrow> NAVData list option \<Rightarrow> FundRatios" where
  "calculateFundRatios clock investments benchmarkHistory =
     (let fs = List.map_filter (fund_ratio clock benchmarkHistory) investments;
          allCashFlows =
            concat (map (\<lambda>i. cashFlows (simulateInvestment clock i (Some (navHistory i))))
                      (filter (\<lambda>i. navHistory i \<noteq> []) investments));
          totalInvested' = foldl (\<lambda>acc f. acc + fund_invested f) (Num 0) fs;
          totalValue = foldl (\<lambda>acc f. acc + fund_currentValue f) (Num 0) fs
      in \<lparr>funds = fs,
          portfolio_invested = totalInvested',
          portfolio_currentValue = totalValue,
          portfolio_xirr = calculateXIRR allCashFlows totalValue (Date clock),
          portfolio_volatility = weighted fund_volatility fs totalValue,
          portfolio_beta = weighted fund_beta fs totalValue,
          portfolio_alpha = weighted fund_alpha fs totalValue\<rparr>)"

section \<open>Properties of the valuation lookup\<close>

definition sample_time :: "NAVData \<Rightarrow> number" where
  "sample_time h = getTime (parseAPIDate (date h))"

definition sample_value :: "NAVData \<Rightarrow> number" where
  "sample_value h = parseFloat (nav h)"

text \<open>A series is stored newest first when no sample is dated after one stored before it.\<close>

definition newest_first :: "NAVData list \<Rightarrow> bool" where
  "newest_first history = sorted_wrt (\<lambda>a b. num_ge (sample_time a) (sample_time b)) history"

lemma num_lt_le_trans: "num_lt a b \<Longrightarrow> num_le b c \<Longrightarrow> num_lt a c"
  by (cases a; cases b; cases c) simp_all

lemma num_le_lt_trans: "num_le a b \<Longrightarrow> num_lt b c \<Longrightarrow> num_lt a c"
  by (cases a; cases b; cases c) simp_all

lemma num_lt_not_le: "num_lt a b \<Longrightarrow> \<not> num_le b a"
  by (cases a; cases b) simp_all

lemma num_lt_imp_le: "num_lt a b \<Longrightarrow> num_le a b"
  by (cases a; cases b) simp_all

lemma find_append_skip: "\<forall>x\<in>set xs. \<not> P x \<Longrightarrow> find P (xs @ ys) = find P ys"
  by (induction xs) simp_all

lemma getNAV_purchase_find:
  assumes "history \<noteq> []"
    and "find (\<lambda>h. num_ge (getTime (parseAPIDate (date h))) (getTime targetDate)) (rev history) = Some h"
  shows "getNAV history targetDate PURCHASE = Some (parseFloat (nav h))"
  using assms by (simp add: getNAV_def)

lemma getNAV_valuation_find:
  assumes "history \<noteq> []"
  shows "getNAV history targetDate VALUATION
    = map_option (\<lambda>h. parseFloat (nav h))
        (find (\<lambda>h. num_le (getTime (parseAPIDate (date h))) (getTime targetDate)) history)"
  using assms by (simp add: getNAV_def split: option.splits)

lemma newest_first_nth:
  assumes "newest_first history" "j < k" "k < length history"
  shows "num_le (sample_time (history ! k)) (sample_time (history ! j))"
  using assms by (simp add: newest_first_def sorted_wrt_iff_nth_less num_ge_def)

text \<open>
  In a series stored newest first, a target strictly between two neighbours splits the
  series: the samples up to the later neighbour are dated after the target, the samples
  from the earlier neighbour on are dated before it.
\<close>

lemma newer_part_after:
  assumes nf: "newest_first history" and i: "i < length history"
    and t: "num_lt T (sample_time (history ! i))"
    and x: "x \<in> set (take (Suc i) history)"
  shows "num_lt T (sample_time x)"
proof -
  from x obtain j where j: "j < Suc i" "j < length history" "x = history ! j"
    by (auto simp: in_set_conv_nth)
  show ?thesis
  proof (cases "j = i")
    case True
    with t j show ?thesis by simp
  next
    case False
    with j have "j < i" by simp
    from newest_first_nth [OF nf this i] t j show ?thesis
      by (auto intro: num_lt_le_trans)
  qed
qed

lemma older_part_before:
  assumes nf: "newest_first history" and i: "i < length history"
    and t: "num_lt (sample_time (history ! i)) T"
    and x: "x \<in> set (drop i history)"
  shows "num_lt (sample_time x) T"
proof -
  from x obtain j where j: "i \<le> j" "j < length history" "x = history ! j"
    by (auto simp: in_set_conv_nth) (metis add.commute le_add2 less_diff_conv)
  show ?thesis
  proof (cases "j = i")
    case True
    with t j show ?thesis by simp
  next
    case False
    with j have "i < j" by simp
    from newest_first_nth [OF nf this j(2)] t j show ?thesis
      by (auto intro: num_le_lt_trans)
  qed
qed


lemmas calendar_defs = civil_from_days_def civil_from_doe_def civil_from_yoe_def civil_from_doy_def
  civil_from_mp_def msPerDay_def MakeDay_def leap_days_before_def month_offset_def is_leap_def
  trunc_def month_start_def month_start_time_def month_index_def today_def

lemmas parse_defs = parseAPIDate_def parseISODate_def Number_def is_digit_def nat_of_digits_def
  digit_val_def elem_def minus_number_def parseFloat_def parse_unsigned_def parse_endDate_def

lemmas compare_defs = num_ge_def num_gt_def date_le_def date_ge_def date_gt_def Math_min_def
  Math_max_def strict_eq_def

text \<open>
  C1 as stated (any storage order) fails: in the series below, stored oldest first, 15
  January 2024 lies strictly between the samples of 1 January and 1 February, which are
  consecutive by date, and the purchase lookup returns the value of 1 March.
\<close>

theorem getNAV_any_order_counterexample:
  "num_lt (sample_time \<lparr>date = ''01-01-2024'', nav = ''10''\<rparr>) (getTime (parseISODate ''2024-01-15''))
   \<and> num_lt (getTime (parseISODate ''2024-01-15'')) (sample_time \<lparr>date = ''01-02-2024'', nav = ''20''\<rparr>)
   \<and> num_lt (sample_time \<lparr>date = ''01-02-2024'', nav = ''20''\<rparr>)
         (sample_time \<lparr>date = ''01-03-2024'', nav = ''30''\<rparr>)
   \<and> sample_value \<lparr>date = ''01-02-2024'', nav = ''20''\<rparr> = Num 20
   \<and> getNAV [\<lparr>date = ''01-01-2024'', nav = ''10''\<rparr>, \<lparr>date = ''01-02-2024'', nav = ''20''\<rparr>,
              \<lparr>date = ''01-03-2024'', nav = ''30''\<rparr>]
         (parseISODate ''2024-01-15'') PURCHASE = Some (Num 30)"
  by (simp add: getNAV_def sample_time_def sample_value_def calendar_defs parse_defs compare_defs)

text \<open>
  C1, amended: for every series stored newest first and every target date strictly
  between two neighbouring samples, \<open>getNAV\<close> returns the later sample's value in purchase
  mode and the earlier sample's value in valuation mode.
\<close>

theorem getNAV_between_neighbours:
  assumes nf: "newest_first history" and i: "Suc i < length history"
    and lo: "num_lt (sample_time (history ! Suc i)) (getTime targetDate)"
    and hi: "num_lt (getTime targetDate) (sample_time (history ! i))"
  shows "getNAV history targetDate PURCHASE = Some (sample_value (history ! i))
       \<and> getNAV history targetDate VALUATION = Some (sample_value (history ! Suc i))"
proof -
  let ?T = "getTime targetDate"
  let ?P = "\<lambda>h. num_ge (getTime (parseAPIDate (date h))) ?T"
  let ?Q = "\<lambda>h. num_le (getTime (parseAPIDate (date h))) ?T"
  from i have ne: "history \<noteq> []" and i': "i < length history"
    by auto
  have split: "history = take (Suc i) history @ drop (Suc i) history"
    by simp
  have older: "\<forall>x\<in>set (drop (Suc i) history). \<not> ?P x"
    using older_part_before [OF nf i lo]
    by (auto simp: num_ge_def sample_time_def dest: num_lt_not_le)
  have newer: "\<forall>x\<in>set (take (Suc i) history). \<not> ?Q x"
    using newer_part_after [OF nf i' hi]
    by (auto simp: sample_time_def dest: num_lt_not_le)
  have "rev history = rev (drop (Suc i) history) @ history ! i # rev (take i history)"
    by (subst split) (simp add: take_Suc_conv_app_nth [OF i'])
  then have "find ?P (rev history) = find ?P (history ! i # rev (take i history))"
    using older by (simp add: find_append_skip)
  also have "\<dots> = Some (history ! i)"
    using num_lt_imp_le [OF hi] by (simp add: num_ge_def sample_time_def)
  finally have p: "getNAV history targetDate PURCHASE = Some (sample_value (history ! i))"
    unfolding sample_value_def by (rule getNAV_purchase_find [OF ne])
  have "find ?Q (take (Suc i) history @ drop (Suc i) history) = find ?Q (drop (Suc i) history)"
    by (rule find_append_skip [OF newer])
  then have "find ?Q history = find ?Q (drop (Suc i) history)"
    by simp
  also have "drop (Suc i) history = history ! Suc i # drop (Suc (Suc i)) history"
    using i by (simp add: Cons_nth_drop_Suc)
  also have "find ?Q \<dots> = Some (history ! Suc i)"
    using num_lt_imp_le [OF lo] by (simp add: sample_time_def)
  finally have "getNAV history targetDate VALUATION = Some (sample_value (history ! Suc i))"
    by (simp add: getNAV_valuation_find [OF ne] sample_value_def)
  with p show ?thesis ..
qed

theorem getNAV_between_neighbours_witness:
  "newest_first [\<lparr>date = ''01-03-2024'', nav = ''30''\<rparr>, \<lparr>date = ''01-02-2024'', nav = ''20''\<rparr>,
                 \<lparr>date = ''01-01-2024'', nav = ''10''\<rparr>]
   \<and> getNAV [\<lparr>date = ''01-03-2024'', nav = ''30''\<rparr>, \<lparr>date = ''01-02-2024'', nav = ''20''\<rparr>,
              \<lparr>date = ''01-01-2024'', nav = ''10''\<rparr>] (parseISODate ''2024-01-15'') PURCHASE
       = Some (Num 20)
   \<and> getNAV [\<lparr>date = ''01-03-2024'', nav = ''30''\<rparr>, \<lparr>date = ''01-02-2024'', nav = ''20''\<rparr>,
              \<lparr>date = ''01-01-2024'', nav = ''10''\<rparr>] (parseISODate ''2024-01-15'') VALUATION
       = Some (Num 10)"
proof -
  let ?H = "[\<lparr>date = ''01-03-2024'', nav = ''30''\<rparr>, \<lparr>date = ''01-02-2024'', nav = ''20''\<rparr>,
             \<lparr>date = ''01-01-2024'', nav = ''10''\<rparr>]"
  have nf: "newest_first ?H"
    by (simp add: newest_first_def sample_time_def calendar_defs parse_defs compare_defs)
  have i: "Suc 1 < length ?H"
    by simp
  have lo: "num_lt (sample_time (?H ! Suc 1)) (getTime (parseISODate ''2024-01-15''))"
    by (simp add: sample_time_def calendar_defs parse_defs)
  have hi: "num_lt (getTime (parseISODate ''2024-01-15'')) (sample_time (?H ! 1))"
    by (simp add: sample_time_def calendar_defs parse_defs)
  have v: "sample_value (?H ! 1) = Num 20" "sample_value (?H ! Suc 1) = Num 10"
    by (simp_all add: sample_value_def parse_defs)
  from getNAV_between_neighbours [OF nf i lo hi] nf show ?thesis
    unfolding v by simp
qed

text \<open>
  C5 as stated (every non-empty series) fails in its first half: the series below is
  stored oldest first, 1 March 2024 is after both its samples, and the purchase lookup
  returns the value of the first stored sample, which is the oldest, not the newest.
\<close>

theorem getNAV_after_all_counterexample:
  "num_lt (sample_time \<lparr>date = ''01-01-2024'', nav = ''10''\<rparr>)
          (sample_time \<lparr>date = ''01-02-2024'', nav = ''20''\<rparr>)
   \<and> num_lt (sample_time \<lparr>date = ''01-02-2024'', nav = ''20''\<rparr>) (getTime (parseISODate ''2024-03-01''))
   \<and> sample_value \<lparr>date = ''01-02-2024'', nav = ''20''\<rparr> = Num 20
   \<and> getNAV [\<lparr>date = ''01-01-2024'', nav = ''10''\<rparr>, \<lparr>date = ''01-02-2024'', nav = ''20''\<rparr>]
         (parseISODate ''2024-03-01'') PURCHASE = Some (Num 10)"
  by (simp add: getNAV_def sample_time_def sample_value_def calendar_defs parse_defs compare_defs)

text \<open>
  C5, amended: for every non-empty series, a purchase lookup at a date strictly after
  every sample date returns the value of the first stored sample, and a valuation lookup
  at a date strictly before every sample date returns not-found; when the series is
  stored newest first, no sample is dated after the first stored one.
\<close>

theorem getNAV_outside_range:
  assumes ne: "history \<noteq> []"
  shows "((\<forall>h\<in>set history. num_lt (sample_time h) (getTime targetDate))
            \<longrightarrow> getNAV history targetDate PURCHASE = Some (sample_value (hd history)))
       \<and> ((\<forall>h\<in>set history. num_lt (getTime targetDate) (sample_time h))
            \<longrightarrow> getNAV history targetDate VALUATION = None)
       \<and> (newest_first history
            \<longrightarrow> (\<forall>h\<in>set (tl history). num_le (sample_time h) (sample_time (hd history))))"
proof (intro conjI impI)
  assume a: "\<forall>h\<in>set history. num_lt (sample_time h) (getTime targetDate)"
  then have "find (\<lambda>h. num_ge (getTime (parseAPIDate (date h))) (getTime targetDate)) (rev history)
      = None"
    by (auto simp: find_None_iff num_ge_def sample_time_def dest: num_lt_not_le)
  moreover from a ne have "num_gt (getTime targetDate) (getTime (parseAPIDate (date (hd history))))"
    by (simp add: num_gt_def sample_time_def)
  ultimately show "getNAV history targetDate PURCHASE = Some (sample_value (hd history))"
    using ne by (simp add: getNAV_def sample_value_def)
next
  assume "\<forall>h\<in>set history. num_lt (getTime targetDate) (sample_time h)"
  then have "find (\<lambda>h. num_le (getTime (parseAPIDate (date h))) (getTime targetDate)) history = None"
    by (auto simp: find_None_iff sample_time_def dest: num_lt_not_le)
  then show "getNAV history targetDate VALUATION = None"
    using ne by (simp add: getNAV_def)
next
  assume "newest_first history"
  with ne show "\<forall>h\<in>set (tl history). num_le (sample_time h) (sample_time (hd history))"
    by (cases history) (simp_all add: newest_first_def num_ge_def)
qed

theorem getNAV_outside_range_witness:
  "getNAV [\<lparr>date = ''01-02-2024'', nav = ''20''\<rparr>, \<lparr>date = ''01-01-2024'', nav = ''10''\<rparr>]
      (parseISODate ''2024-03-01'') PURCHASE = Some (Num 20)
   \<and> getNAV [\<lparr>date = ''01-02-2024'', nav = ''20''\<rparr>, \<lparr>date = ''01-01-2024'', nav = ''10''\<rparr>]
      (parseISODate ''2023-12-01'') VALUATION = None
   \<and> num_le (sample_time \<lparr>date = ''01-01-2024'', nav = ''10''\<rparr>)
        (sample_time \<lparr>date = ''01-02-2024'', nav = ''20''\<rparr>)"
proof -
  let ?H = "[\<lparr>date = ''01-02-2024'', nav = ''20''\<rparr>, \<lparr>date = ''01-01-2024'', nav = ''10''\<rparr>]"
  have ne: "?H \<noteq> []"
    by simp
  have after: "\<forall>h\<in>set ?H. num_lt (sample_time h) (getTime (parseISODate ''2024-03-01''))"
    by (simp add: sample_time_def calendar_defs parse_defs)
  have before: "\<forall>h\<in>set ?H. num_lt (getTime (parseISODate ''2023-12-01'')) (sample_time h)"
    by (simp add: sample_time_def calendar_defs parse_defs)
  have nf: "newest_first ?H"
    by (simp add: newest_first_def sample_time_def calendar_defs parse_defs compare_defs)
  have v: "sample_value (hd ?H) = Num 20"
    by (simp add: sample_value_def parse_defs)
  from getNAV_outside_range [OF ne, of "parseISODate ''2024-03-01''"] after v
  have 1: "getNAV ?H (parseISODate ''2024-03-01'') PURCHASE = Some (Num 20)"
    by simp
  from getNAV_outside_range [OF ne, of "parseISODate ''2023-12-01''"] before
  have 2: "getNAV ?H (parseISODate ''2023-12-01'') VALUATION = None"
    by blast
  from getNAV_outside_range [OF ne, of "parseISODate ''2023-12-01''"] nf
  have 3: "num_le (sample_time \<lparr>date = ''01-01-2024'', nav = ''10''\<rparr>)
        (sample_time \<lparr>date = ''01-02-2024'', nav = ''20''\<rparr>)"
    by simp
  from 1 2 3 show ?thesis by simp
qed

section \<open>Properties of the cash-flow simulator\<close>

text \<open>The purchase lookup succeeds when it returns a number that the condition accepts.\<close>

definition purchase_ok :: "NAVData list \<Rightarrow> Date \<Rightarrow> bool" where
  "purchase_ok h d = (case getNAV h d PURCHASE of None \<Rightarrow> False | Some v \<Rightarrow> truthy v)"

lemma num_zero_add [simp]: "Num 0 + x = x"
  by (cases x) simp_all

lemma num_zero_times: "isFinite x \<Longrightarrow> Num 0 * x = Num 0"
  by (cases x) simp_all

lemma simulateInvestment_lumpsum:
  assumes "type inv' = LUMPSUM" "h \<noteq> []"
  shows "simulateInvestment clock inv' (Some h)
    = (let s = buy inv' h (parseISODate (startDate inv')) \<lparr>units = Num 0, totalInvested = Num 0, cashFlows = []\<rparr>
       in \<lparr>units = units s, totalInvested = totalInvested s, cashFlows = cashFlows s,
           currentValue = units s * parseFloat (nav (hd h))\<rparr>)"
  using assms by (simp add: simulateInvestment_def Let_def)

text \<open>
  C3 as stated fails: a recurring investment simulated against the same series on 20
  January 2023 and on 20 March 2023 has contributed 5000 and 15000.
\<close>

theorem simulateInvestment_clock_counterexample:
  "totalInvested (simulateInvestment 1674200000000
      \<lparr>name = ''F'', isDirect = True,
       navHistory = [\<lparr>date = ''15-03-2023'', nav = ''12''\<rparr>, \<lparr>date = ''15-02-2023'', nav = ''11''\<rparr>,
                     \<lparr>date = ''15-01-2023'', nav = ''10''\<rparr>],
       counterpartNavHistory = None, type = SIP, amount = Num 5000,
       startDate = ''2023-01-15'', endDate = None\<rparr>
      (Some [\<lparr>date = ''15-03-2023'', nav = ''12''\<rparr>, \<lparr>date = ''15-02-2023'', nav = ''11''\<rparr>,
             \<lparr>date = ''15-01-2023'', nav = ''10''\<rparr>])) = Num 5000
   \<and> totalInvested (simulateInvestment 1679300000000
      \<lparr>name = ''F'', isDirect = True,
       navHistory = [\<lparr>date = ''15-03-2023'', nav = ''12''\<rparr>, \<lparr>date = ''15-02-2023'', nav = ''11''\<rparr>,
                     \<lparr>date = ''15-01-2023'', nav = ''10''\<rparr>],
       counterpartNavHistory = None, type = SIP, amount = Num 5000,
       startDate = ''2023-01-15'', endDate = None\<rparr>
      (Some [\<lparr>date = ''15-03-2023'', nav = ''12''\<rparr>, \<lparr>date = ''15-02-2023'', nav = ''11''\<rparr>,
             \<lparr>date = ''15-01-2023'', nav = ''10''\<rparr>])) = Num 15000"
  by (simp add: simulateInvestment_def sip_loop.simps sip_payment_date_def buy_def getNAV_def
      calendar_defs parse_defs compare_defs)

text \<open>
  C3, amended: the simulator and the aggregator are functions of their inputs and of the
  clock; two runs on identical inputs agree when they fall on the same calendar day, and
  for a single-event investment the simulator's result does not depend on the clock.
\<close>

theorem simulateInvestment_deterministic:
  "(type inv' = LUMPSUM \<or> today clock1 = today clock2
      \<longrightarrow> simulateInvestment clock1 inv' navHistory' = simulateInvestment clock2 inv' navHistory')
   \<and> (today clock1 = today clock2
      \<longrightarrow> generateBacktestData clock1 investments benchmarkHistory
          = generateBacktestData clock2 investments benchmarkHistory)"
  by (auto simp: simulateInvestment_def generateBacktestData_def Let_def
      split: option.splits Date.splits)

theorem simulateInvestment_deterministic_witness:
  "simulateInvestment 1674200000000
      \<lparr>name = ''F'', isDirect = True, navHistory = [\<lparr>date = ''15-01-2023'', nav = ''10''\<rparr>],
       counterpartNavHistory = None, type = LUMPSUM, amount = Num 5000,
       startDate = ''2023-01-15'', endDate = None\<rparr> (Some [\<lparr>date = ''15-01-2023'', nav = ''10''\<rparr>])
   = simulateInvestment 1679300000000
      \<lparr>name = ''F'', isDirect = True, navHistory = [\<lparr>date = ''15-01-2023'', nav = ''10''\<rparr>],
       counterpartNavHistory = None, type = LUMPSUM, amount = Num 5000,
       startDate = ''2023-01-15'', endDate = None\<rparr> (Some [\<lparr>date = ''15-01-2023'', nav = ''10''\<rparr>])
   \<and> generateBacktestData 1674200000000 [] None = generateBacktestData 1674200000001 [] None"
proof -
  have "today 1674200000000 = today 1674200000001"
    by (simp add: today_def msPerDay_def)
  with simulateInvestment_deterministic
    [of "\<lparr>name = ''F'', isDirect = True, navHistory = [\<lparr>date = ''15-01-2023'', nav = ''10''\<rparr>],
         counterpartNavHistory = None, type = LUMPSUM, amount = Num 5000,
         startDate = ''2023-01-15'', endDate = None\<rparr>" 1674200000000 1679300000000]
    simulateInvestment_deterministic [of _ 1674200000000 1674200000001 _ "[]" None]
  show ?thesis
    by simp
qed

text \<open>
  C8 as stated fails in its last clause: the series below is stored oldest first; the
  single contribution of 100 buys 5 units, and the current value is 5 times the value of
  the first stored sample (10), not of the newest sample (20).
\<close>

theorem simulateInvestment_lumpsum_counterexample:
  "num_lt (sample_time \<lparr>date = ''01-01-2024'', nav = ''10''\<rparr>)
          (sample_time \<lparr>date = ''01-02-2024'', nav = ''20''\<rparr>)
   \<and> sample_value \<lparr>date = ''01-02-2024'', nav = ''20''\<rparr> = Num 20
   \<and> units (simulateInvestment 0
        \<lparr>name = ''F'', isDirect = True,
         navHistory = [\<lparr>date = ''01-01-2024'', nav = ''10''\<rparr>, \<lparr>date = ''01-02-2024'', nav = ''20''\<rparr>],
         counterpartNavHistory = None, type = LUMPSUM, amount = Num 100,
         startDate = ''2024-01-01'', endDate = None\<rparr>
        (Some [\<lparr>date = ''01-01-2024'', nav = ''10''\<rparr>, \<lparr>date = ''01-02-2024'', nav = ''20''\<rparr>])) = Num 5
   \<and> currentValue (simulateInvestment 0
        \<lparr>name = ''F'', isDirect = True,
         navHistory = [\<lparr>date = ''01-01-2024'', nav = ''10''\<rparr>, \<lparr>date = ''01-02-2024'', nav = ''20''\<rparr>],
         counterpartNavHistory = None, type = LUMPSUM, amount = Num 100,
         startDate = ''2024-01-01'', endDate = None\<rparr>
        (Some [\<lparr>date = ''01-01-2024'', nav = ''10''\<rparr>, \<lparr>date = ''01-02-2024'', nav = ''20''\<rparr>])) = Num 50"
  by (simp add: simulateInvestment_def buy_def getNAV_def sample_time_def sample_value_def
      calendar_defs parse_defs compare_defs)

text \<open>
  C8, amended: for every single-event investment, \<open>simulateInvestment\<close> produces at most
  one cash flow, from the purchase lookup at the start date. With no series or an empty
  one the result is all zero. With a non-empty series, if the lookup fails the units,
  the contributed total and the cash flows are zero or empty, and the current value is 0
  when the first stored sample's value is a finite number; if it succeeds with value
  \<open>v\<close>, the units are \<open>amount / v\<close> and the one cash flow is \<open>- amount\<close> at the start date.
  In both cases the current value is the units times the first stored sample's value.
\<close>

theorem simulateInvestment_lumpsum_result:
  assumes "type inv' = LUMPSUM"
  shows "length (cashFlows (simulateInvestment clock inv' navHistory')) \<le> 1
    \<and> (case navHistory' of
          None \<Rightarrow> simulateInvestment clock inv' navHistory'
                   = \<lparr>units = Num 0, totalInvested = Num 0, cashFlows = [], currentValue = Num 0\<rparr>
        | Some h \<Rightarrow>
            if h = []
            then simulateInvestment clock inv' navHistory'
                   = \<lparr>units = Num 0, totalInvested = Num 0, cashFlows = [], currentValue = Num 0\<rparr>
            else currentValue (simulateInvestment clock inv' navHistory')
                   = units (simulateInvestment clock inv' navHistory') * sample_value (hd h)
               \<and> (if purchase_ok h (parseISODate (startDate inv'))
                   then units (simulateInvestment clock inv' navHistory')
                          = amount inv' / the (getNAV h (parseISODate (startDate inv')) PURCHASE)
                      \<and> totalInvested (simulateInvestment clock inv' navHistory') = amount inv'
                      \<and> cashFlows (simulateInvestment clock inv' navHistory')
                          = [\<lparr>flow_date = parseISODate (startDate inv'), flow_amount = - amount inv'\<rparr>]
                   else units (simulateInvestment clock inv' navHistory') = Num 0
                      \<and> totalInvested (simulateInvestment clock inv' navHistory') = Num 0
                      \<and> cashFlows (simulateInvestment clock inv' navHistory') = []
                      \<and> (isFinite (sample_value (hd h))
                            \<longrightarrow> currentValue (simulateInvestment clock inv' navHistory') = Num 0)))"
proof (cases navHistory')
  case None
  then show ?thesis
    by (simp add: simulateInvestment_def)
next
  case (Some h)
  show ?thesis
  proof (cases "h = []")
    case True
    with Some show ?thesis
      by (simp add: simulateInvestment_def)
  next
    case False
    show ?thesis
      unfolding Some simulateInvestment_lumpsum [OF assms False]
      using False
      by (auto simp: Let_def buy_def purchase_ok_def sample_value_def num_zero_times
          split: option.splits)
  qed
qed

theorem simulateInvestment_lumpsum_result_witness:
  "currentValue (simulateInvestment 0
        \<lparr>name = ''F'', isDirect = True,
         navHistory = [\<lparr>date = ''01-02-2024'', nav = ''20''\<rparr>, \<lparr>date = ''01-01-2024'', nav = ''10''\<rparr>],
         counterpartNavHistory = None, type = LUMPSUM, amount = Num 100,
         startDate = ''2024-01-01'', endDate = None\<rparr>
        (Some [\<lparr>date = ''01-02-2024'', nav = ''20''\<rparr>, \<lparr>date = ''01-01-2024'', nav = ''10''\<rparr>]))
     = Num 10 * Num 20
   \<and> currentValue (simulateInvestment 0
        \<lparr>name = ''F'', isDirect = True,
         navHistory = [\<lparr>date = ''01-02-2024'', nav = ''20''\<rparr>, \<lparr>date = ''01-01-2024'', nav = ''0''\<rparr>],
         counterpartNavHistory = None, type = LUMPSUM, amount = Num 100,
         startDate = ''2024-01-01'', endDate = None\<rparr>
        (Some [\<lparr>date = ''01-02-2024'', nav = ''20''\<rparr>, \<lparr>date = ''01-01-2024'', nav = ''0''\<rparr>]))
     = Num 0"
proof -
  let ?H = "[\<lparr>date = ''01-02-2024'', nav = ''20''\<rparr>, \<lparr>date = ''01-01-2024'', nav = ''10''\<rparr>]"
  let ?Z = "[\<lparr>date = ''01-02-2024'', nav = ''20''\<rparr>, \<lparr>date = ''01-01-2024'', nav = ''0''\<rparr>]"
  let ?I = "\<lambda>H. \<lparr>name = ''F'', isDirect = True, navHistory = H,
         counterpartNavHistory = None, type = LUMPSUM, amount = Num 100,
         startDate = ''2024-01-01'', endDate = None\<rparr>"
  have g: "getNAV ?H (parseISODate ''2024-01-01'') PURCHASE = Some (Num 10)"
    by (simp add: getNAV_def calendar_defs parse_defs compare_defs)
  have g0: "getNAV ?Z (parseISODate ''2024-01-01'') PURCHASE = Some (Num 0)"
    by (simp add: getNAV_def calendar_defs parse_defs compare_defs)
  have v: "sample_value (hd ?H) = Num 20" "sample_value (hd ?Z) = Num 20"
    by (simp_all add: sample_value_def parse_defs)
  from simulateInvestment_lumpsum_result [of "?I ?H" 0 "Some ?H"] g v
  have 1: "currentValue (simulateInvestment 0 (?I ?H) (Some ?H)) = Num 10 * Num 20"
    by (simp add: purchase_ok_def)
  from simulateInvestment_lumpsum_result [of "?I ?Z" 0 "Some ?Z"] g0 v
  have 2: "currentValue (simulateInvestment 0 (?I ?Z) (Some ?Z)) = Num 0"
    by (simp add: purchase_ok_def)
  from 1 2 show ?thesis ..
qed

end
